theory Spec2Isabelle
  imports Main "HOL-Library.Sublist"
begin

section \<open>JavaScript values and strings\<close>

text \<open>
  Strings are \<^typ>\<open>string\<close>: a JavaScript string is read as the list of the bytes of its
  UTF-8 encoding, so on ASCII text (all that the properties below use) a \<^typ>\<open>char\<close> is
  one UTF-16 code unit and \<^term>\<open>length\<close> is JavaScript's \<open>.length\<close>.

  \<open>jsval\<close> is the part of the JavaScript value space that the modelled code reads:
  \<open>undefined\<close>, numbers (integers only), strings, and opaque objects (named by a text).
\<close>

datatype jsval = JUndefined | JNum int | JStr string | JObj string

text \<open>JavaScript truthiness, as \<open>if (v)\<close>, \<open>v || w\<close> and \<open>!v\<close> read it.\<close>

fun truthy :: "jsval \<Rightarrow> bool" where
  "truthy JUndefined = False"
| "truthy (JNum n) = (n \<noteq> 0)"
| "truthy (JStr s) = (s \<noteq> [])"
| "truthy (JObj _) = True"

definition js_or :: "jsval \<Rightarrow> jsval \<Rightarrow> jsval" where
  "js_or a b = (if truthy a then a else b)"

text \<open>\<open>Array.prototype.join\<close> on an array of strings.\<close>

fun js_join :: "string \<Rightarrow> string list \<Rightarrow> string" where
  "js_join sep [] = []"
| "js_join sep [x] = x"
| "js_join sep (x # y # ys) = x @ sep @ js_join sep (y # ys)"

text \<open>\<open>s.includes(sub)\<close>, which is also \<open>/sub/.test(s)\<close> for a pattern of literal
  characters.\<close>

fun js_includes :: "string \<Rightarrow> string \<Rightarrow> bool" where
  "js_includes sub [] = (sub = [])"
| "js_includes sub (c # cs) = (prefix sub (c # cs) \<or> js_includes sub cs)"

text \<open>Decimal digits of a natural number, and \<open>String(n)\<close> for an integer \<open>n\<close>
  (JavaScript prints integers below \<open>10^21\<close> in plain decimal).\<close>

definition digit_char :: "nat \<Rightarrow> char" where
  "digit_char d = ''0123456789ABCDEF'' ! d"

fun show_nat :: "nat \<Rightarrow> string" where
  "show_nat n = (if n < 10 then [digit_char n] else show_nat (n div 10) @ [digit_char (n mod 10)])"

declare show_nat.simps [simp del]

definition js_number_to_string :: "int \<Rightarrow> string" where
  "js_number_to_string i = (if i < 0 then CHR ''-'' # show_nat (nat (- i)) else show_nat (nat i))"

text \<open>
  \<open>encodeURIComponent\<close>: every byte outside the unreserved set
  \<open>A-Z a-z 0-9 - _ . ! ~ * ' ( )\<close> becomes \<open>%XX\<close> with upper-case hexadecimal digits.
\<close>

definition uri_unreserved :: "char \<Rightarrow> bool" where
  "uri_unreserved c =
     (let n = (of_char c :: nat) in
        (65 \<le> n \<and> n \<le> 90) \<or> (97 \<le> n \<and> n \<le> 122) \<or> (48 \<le> n \<and> n \<le> 57)
        \<or> c \<in> set ''-_.!~*()'' \<or> n = 39)"

definition encode_char :: "char \<Rightarrow> string" where
  "encode_char c =
     (if uri_unreserved c then [c]
      else [CHR ''%'', digit_char ((of_char c :: nat) div 16), digit_char ((of_char c :: nat) mod 16)])"

definition encodeURIComponent :: "string \<Rightarrow> string" where
  "encodeURIComponent s = concat (map encode_char s)"

text \<open>\<open>String.prototype.toLowerCase\<close> on ASCII letters.\<close>

definition lower_char :: "char \<Rightarrow> char" where
  "lower_char c =
     (let n = (of_char c :: nat) in if 65 \<le> n \<and> n \<le> 90 then char_of (n + 32) else c)"

definition toLowerCase :: "string \<Rightarrow> string" where
  "toLowerCase s = map lower_char s"

section \<open>The URL formatter (\<open>urlFormatterFor\<close>)\<close>

text \<open>
  \<open>Explained\<close> carries the kind, its API version and whether it is cluster scoped.
  Of \<open>parsedOptions\<close> the formatter reads four things. Two of them it reads through
  helpers of \<open>kubectl/options\<close>, whose results are fields here: \<open>getLabel\<close> (a string, an
  array of strings when the option is repeated, or nothing) and \<open>isForAllNamespaces\<close>.
\<close>

record explained =
  kind :: string
  version :: string
  isClusterScoped :: bool

datatype js_label = LabelUndefined | LabelString string | LabelArray "string list"

record kube_options =
  getLabel :: js_label
  isForAllNamespaces :: bool
  field_selector :: jsval
  limit :: jsval

definition kindOnPath :: "explained \<Rightarrow> string" where
  "kindOnPath ex =
     ''/'' @ encodeURIComponent
       (toLowerCase (kind ex) @ (if suffix ''s'' (kind ex) then [] else ''s''))"

definition apiOnPath :: "explained \<Rightarrow> string" where
  "apiOnPath ex =
     (if version ex = ''v1'' then ''api/v1'' else ''apis/'' @ encodeURIComponent (version ex))"

definition namespaceOnPath :: "string \<Rightarrow> kube_options \<Rightarrow> explained \<Rightarrow> string" where
  "namespaceOnPath namespace parsedOptions ex =
     (if isForAllNamespaces parsedOptions then []
      else if kind ex = ''Namespace'' then []
      else if isClusterScoped ex then []
      else ''/namespaces/'' @ encodeURIComponent namespace)"

definition labelQuery :: "string \<Rightarrow> string" where
  "labelQuery query = ''labelSelector='' @ encodeURIComponent query"

text \<open>The three blocks that push onto \<open>queries\<close>, in the source's order.\<close>

definition labelQueries :: "kube_options \<Rightarrow> string list" where
  "labelQueries parsedOptions =
     (case getLabel parsedOptions of
        LabelUndefined \<Rightarrow> []
      | LabelString l \<Rightarrow> (if l = [] then [] else [labelQuery l])
      | LabelArray ls \<Rightarrow> map labelQuery ls)"

definition fieldQueries :: "kube_options \<Rightarrow> string list" where
  "fieldQueries parsedOptions =
     (case field_selector parsedOptions of
        JStr f \<Rightarrow> (if f = [] then [] else [''fieldSelector='' @ encodeURIComponent f])
      | _ \<Rightarrow> [])"

definition limitQueries :: "kube_options \<Rightarrow> string list" where
  "limitQueries parsedOptions =
     (case limit parsedOptions of
        JNum n \<Rightarrow> [''limit='' @ js_number_to_string n]
      | _ \<Rightarrow> [])"

definition queries :: "kube_options \<Rightarrow> string list" where
  "queries parsedOptions =
     labelQueries parsedOptions @ fieldQueries parsedOptions @ limitQueries parsedOptions"

text \<open>
  The returned closure, applied: \<open>formatter(includeKind, includeQueries, name)\<close>. A
  missing \<open>name\<close> is \<open>None\<close>; \<open>!name\<close> also holds for the empty string.
\<close>

definition urlFormatterFor ::
  "string \<Rightarrow> kube_options \<Rightarrow> explained \<Rightarrow> bool \<Rightarrow> bool \<Rightarrow> string option \<Rightarrow> string" where
  "urlFormatterFor namespace parsedOptions ex includeKind includeQueries name =
     ''kubernetes:///'' @ apiOnPath ex @ namespaceOnPath namespace parsedOptions ex
     @ (if \<not> includeKind then [] else kindOnPath ex)
     @ (case name of None \<Rightarrow> [] | Some n \<Rightarrow> if n = [] then [] else ''/'' @ encodeURIComponent n)
     @ (if \<not> includeQueries \<or> length (queries parsedOptions) = 0 then []
        else ''?'' @ js_join ''&'' (queries parsedOptions))"

section \<open>Errors\<close>

text \<open>
  A thrown JavaScript error: its class name, its \<open>message\<close>, and the two fields the
  code copies a status from, \<open>code\<close> (Node's \<open>'ECONNREFUSED'\<close>, \<open>'ENOENT'\<close>, or a storage
  client's code) and \<open>httpstatuscode\<close>. An absent field is \<open>JUndefined\<close>.
\<close>

record js_error =
  ename :: string
  message :: string
  code :: jsval
  httpstatuscode :: jsval

definition new_Error :: "string \<Rightarrow> js_error" where
  "new_Error msg = \<lparr>ename = ''Error'', message = msg, code = JUndefined, httpstatuscode = JUndefined\<rparr>"

text \<open>The \<open>TypeError\<close> of reading a property of \<open>undefined\<close> or of destructuring \<open>null\<close>.\<close>

definition new_TypeError :: "string \<Rightarrow> js_error" where
  "new_TypeError msg =
     \<lparr>ename = ''TypeError'', message = msg, code = JUndefined, httpstatuscode = JUndefined\<rparr>"

text \<open>\<open>xs[i]\<close> on an array of values: \<open>undefined\<close> out of range.\<close>

definition js_nth :: "jsval list \<Rightarrow> nat \<Rightarrow> jsval" where
  "js_nth xs i = (if i < length xs then xs ! i else JUndefined)"

section \<open>The fetch client (\<open>fetch-file.ts\<close>)\<close>

datatype http_method = Get | Put | Post | Delete

record fetch_options =
  returnErrors :: bool
  data :: jsval
  headers :: "(string \<rightharpoonup> string) option"
  fo_method :: "http_method option"

record needle_request =
  req_method :: http_method
  req_url :: string
  req_data :: jsval
  req_headers :: "string \<rightharpoonup> string"

record response =
  statusCode :: int
  body :: jsval

text \<open>
  The world the client runs in. \<open>inBrowser\<close> and \<open>hasProxy\<close> are the two predicates of the
  shell's core. The network is an oracle: \<open>needle k req\<close> is what the \<open>k\<close>-th direct request
  (counted from 0) returns or throws, \<open>getProxyState k\<close> what resolving the kubectl proxy's
  base URL gives at that request, and \<open>rexec k cmd opts\<close> the \<open>content\<close> that the \<open>k\<close>-th
  remote command gives. \<open>encodeComponent\<close> and \<open>strings\<close> (the i18n table) come from the
  shell's core as well.
\<close>

record fetch_env =
  inBrowser :: bool
  hasProxy :: bool
  getProxyState :: "nat \<Rightarrow> js_error + string"
  needle :: "nat \<Rightarrow> needle_request \<Rightarrow> js_error + response"
  rexec :: "nat \<Rightarrow> string \<Rightarrow> fetch_options option \<Rightarrow> js_error + jsval list"
  encodeComponent :: "string \<Rightarrow> string"
  strings :: "string \<Rightarrow> string"

text \<open>
  What a fetch leaves behind: how many direct requests were made, the delays passed to
  \<open>setTimeout\<close> (milliseconds, in order), and the remote commands sent through \<open>rexec\<close>.
\<close>

record fetch_state =
  attempts :: nat
  waits :: "nat list"
  commands :: "string list"

definition MAX_ECONNREFUSED_RETRIES :: nat where
  "MAX_ECONNREFUSED_RETRIES = 10"

text \<open>\<open>rescheme\<close>: a \<open>kubernetes://\<close> prefix (13 characters) is replaced by the proxy's
  current base URL; other URLs are left alone and the proxy state is not consulted.\<close>

definition rescheme :: "fetch_env \<Rightarrow> nat \<Rightarrow> string \<Rightarrow> js_error + string" where
  "rescheme env k url =
     (if prefix ''kubernetes://'' url then
        (case getProxyState env k of
           Inl err \<Rightarrow> Inl err
         | Inr baseUrl \<Rightarrow> Inr (baseUrl @ drop 13 url))
      else Inr url)"

text \<open>The body of the \<open>try\<close> block of \<open>_needle\<close>: one direct request, number \<open>k\<close>.\<close>

definition needle_once :: "fetch_env \<Rightarrow> nat \<Rightarrow> string \<Rightarrow> fetch_options \<Rightarrow> js_error + response" where
  "needle_once env k url opts =
     (case rescheme env k url of
        Inl err \<Rightarrow> Inl err
      | Inr uri \<Rightarrow>
          needle env k
            \<lparr>req_method = (case fo_method opts of None \<Rightarrow> Get | Some m \<Rightarrow> m),
             req_url = uri,
             req_data = data opts,
             req_headers =
               [''connection'' \<mapsto> ''keep-alive'']
                 ++ (case headers opts of None \<Rightarrow> Map.empty | Some h \<Rightarrow> h)\<rparr>)"

text \<open>
  \<open>_needle(repl, url, opts, retryCount)\<close>. Outside a browser, \<open>opts.headers\<close> is read
  before the \<open>try\<close>, so a missing \<open>opts\<close> is a \<open>TypeError\<close> (its message is the
  engine's, written here without its quotation marks). A request that throws with
  \<open>code === 'ECONNREFUSED'\<close> while \<open>retryCount < MAX_ECONNREFUSED_RETRIES\<close> is repeated
  after \<open>setTimeout(..., 50)\<close>; any other error is thrown on. In a browser (the second
  test of \<open>inBrowser()\<close> is the negation of the first) the request goes to the proxy as
  the command \<open>_fetchfile\<close>, or fails when there is no proxy.
\<close>

function underscore_needle ::
  "fetch_env \<Rightarrow> string \<Rightarrow> fetch_options option \<Rightarrow> nat \<Rightarrow> fetch_state
     \<Rightarrow> (js_error + response) \<times> fetch_state" where
  "underscore_needle env url opts retryCount s =
     (if \<not> inBrowser env then
        (case opts of
           None \<Rightarrow> (Inl (new_TypeError ''Cannot read property headers of undefined''), s)
         | Some fo \<Rightarrow>
             (case needle_once env (attempts s) url fo of
                Inr r \<Rightarrow> (Inr \<lparr>statusCode = statusCode r, body = body r\<rparr>, s\<lparr>attempts := Suc (attempts s)\<rparr>)
              | Inl err \<Rightarrow>
                  if code err = JStr ''ECONNREFUSED'' \<and> retryCount < MAX_ECONNREFUSED_RETRIES
                  then underscore_needle env url opts (retryCount + 1)
                         (s\<lparr>attempts := Suc (attempts s), waits := waits s @ [50]\<rparr>)
                  else (Inl err, s\<lparr>attempts := Suc (attempts s)\<rparr>)))
      else if \<not> hasProxy env then
        (Inl (new_Error (strings env ''Unable to fetch remote file'')), s)
      else
        (let cmd = ''_fetchfile '' @ encodeComponent env url;
             s' = s\<lparr>commands := commands s @ [cmd]\<rparr>
         in case rexec env (length (commands s)) cmd opts of
              Inl err \<Rightarrow> (Inl err, s')
            | Inr content \<Rightarrow> (Inr \<lparr>statusCode = 200, body = js_nth content 0\<rparr>, s')))"
  by pat_completeness auto
termination
  by (relation "measure (\<lambda>(env, url, opts, retryCount, s). MAX_ECONNREFUSED_RETRIES - retryCount)")
     auto

declare underscore_needle.simps [simp del]

text \<open>
  \<open>fetchRemote\<close>: \<open>fetchOnce().catch(retry(500)).catch(retry(1000)).catch(retry(5000))\<close>.
  \<open>retry(delay)\<close> handles an error whose message matches \<open>/timeout/\<close>, \<open>/hang up/\<close> or
  \<open>/hangup/\<close> by waiting \<open>delay\<close> and fetching once more, and throws any other error
  on. \<open>catch_with\<close> is \<open>Promise.prototype.catch\<close>: the handler runs only on a rejection.
\<close>

definition fetchOnce ::
  "fetch_env \<Rightarrow> string \<Rightarrow> fetch_options option \<Rightarrow> fetch_state \<Rightarrow> (js_error + jsval) \<times> fetch_state" where
  "fetchOnce env url opts s =
     (case underscore_needle env url opts 0 s of
        (Inl err, s') \<Rightarrow> (Inl err, s')
      | (Inr r, s') \<Rightarrow> (Inr (body r), s'))"

definition retryable :: "js_error \<Rightarrow> bool" where
  "retryable err =
     (js_includes ''timeout'' (message err) \<or> js_includes ''hang up'' (message err)
      \<or> js_includes ''hangup'' (message err))"

definition retry ::
  "fetch_env \<Rightarrow> string \<Rightarrow> fetch_options option \<Rightarrow> nat \<Rightarrow> js_error \<Rightarrow> fetch_state
     \<Rightarrow> (js_error + jsval) \<times> fetch_state" where
  "retry env url opts delay err s =
     (if retryable err then fetchOnce env url opts (s\<lparr>waits := waits s @ [delay]\<rparr>)
      else (Inl err, s))"

definition catch_with ::
  "(js_error \<Rightarrow> fetch_state \<Rightarrow> (js_error + 'a) \<times> fetch_state)
     \<Rightarrow> (js_error + 'a) \<times> fetch_state \<Rightarrow> (js_error + 'a) \<times> fetch_state" where
  "catch_with handler p =
     (case p of (Inl err, s) \<Rightarrow> handler err s | (Inr v, s) \<Rightarrow> (Inr v, s))"

definition fetchRemote ::
  "fetch_env \<Rightarrow> string \<Rightarrow> fetch_options option \<Rightarrow> fetch_state \<Rightarrow> (js_error + jsval) \<times> fetch_state" where
  "fetchRemote env url opts s =
     catch_with (retry env url opts 5000)
       (catch_with (retry env url opts 1000)
          (catch_with (retry env url opts 500) (fetchOnce env url opts s)))"

section \<open>The object-storage responder (\<open>S3VFSResponder\<close>)\<close>

subsection \<open>Asynchronous code with effects\<close>

text \<open>
  A call of the storage client, of the REPL or of the file system is an \<open>event\<close>; an
  asynchronous function is modelled by its outcome (the value it resolves with, or the
  error it rejects with) together with the events it caused, in order. A client call
  names the mount path of the responder whose client it is.
\<close>

datatype s3_op =
    ListBuckets
  | ListObjects string "string option" bool
  | FGetObject string string string
  | FPutObject string string string bool
  | CopyObject string string string
  | GetObject string string
  | PutObject string string string
  | RemoveObjects string "string list"
  | RemoveBucket string
  | MakeBucket string string

datatype event =
    Client string s3_op
  | Rexec string
  | Stat string
  | RunWithProgress "string list"
  | RunWithLogs "string list"

type_synonym 'a io = "(js_error + 'a) \<times> event list"

definition ret :: "'a \<Rightarrow> 'a io" where
  "ret v = (Inr v, [])"

definition throw :: "js_error \<Rightarrow> 'a io" where
  "throw err = (Inl err, [])"

text \<open>\<open>call ev res\<close>: an awaited external call that has the outcome \<open>res\<close>.\<close>

definition call :: "event \<Rightarrow> js_error + 'a \<Rightarrow> 'a io" where
  "call ev res = (res, [ev])"

text \<open>\<open>bind m f\<close>: \<open>const x = await m; ... f x ...\<close>; a rejection of \<open>m\<close> skips \<open>f\<close>.\<close>

definition bind :: "'a io \<Rightarrow> ('a \<Rightarrow> 'b io) \<Rightarrow> 'b io" where
  "bind m f =
     (case m of
        (Inl err, t) \<Rightarrow> (Inl err, t)
      | (Inr v, t) \<Rightarrow> (case f v of (res, t') \<Rightarrow> (res, t @ t')))"

text \<open>\<open>try_catch m h\<close>: \<open>try { return await m } catch (err) { h err }\<close>.\<close>

definition try_catch :: "'a io \<Rightarrow> (js_error \<Rightarrow> 'a io) \<Rightarrow> 'a io" where
  "try_catch m h =
     (case m of
        (Inl err, t) \<Rightarrow> (case h err of (res, t') \<Rightarrow> (res, t @ t'))
      | (Inr v, t) \<Rightarrow> (Inr v, t))"

text \<open>
  \<open>Promise.all\<close> over tasks that were all started: every task runs to its own end, so
  the events of all of them occur; the result is the list of values, or a rejection. The
  tasks run interleaved in the source; the model lists their events task by task and
  takes the rejection of the first rejected task in list order.
\<close>

fun all_values :: "(js_error + 'a) list \<Rightarrow> js_error + 'a list" where
  "all_values [] = Inr []"
| "all_values (Inl err # rs) = Inl err"
| "all_values (Inr v # rs) = (case all_values rs of Inl err \<Rightarrow> Inl err | Inr vs \<Rightarrow> Inr (v # vs))"

definition promise_all :: "'a io list \<Rightarrow> 'a list io" where
  "promise_all ms = (all_values (map fst ms), concat (map snd ms))"

subsection \<open>Data\<close>

text \<open>
  An object as the client's listing stream reports it, and \<open>DirEntry\<close>. Of a \<open>DirEntry\<close>
  the fields that differ between entries are kept; \<open>mode\<close>, \<open>uid\<close>, \<open>gid\<close>, \<open>permissions\<close>,
  \<open>username\<close> and the three flags that are always false are the same in every entry.
\<close>

record s3_object =
  obj_name :: string
  obj_size :: int
  obj_lastModified :: int

record dir_entry =
  de_name :: string
  de_path :: string
  de_size :: int
  de_mtimeMs :: int
  de_nameForDisplay :: string
  de_isFile :: bool
  de_isDirectory :: bool

text \<open>A listing stream: its \<open>data\<close> events, then \<open>end\<close> (and \<open>close\<close>) or \<open>error\<close>.\<close>

datatype stream_end = StreamEnd | StreamError js_error

record object_stream =
  items :: "s3_object list"
  ending :: stream_end

text \<open>
  The storage client (minio) is an oracle: each operation has an outcome for its
  arguments. \<open>None\<close> is the success of an operation that returns nothing.
\<close>

record s3_client =
  c_listBuckets :: "js_error + string list"
  c_listObjects :: "string \<Rightarrow> string option \<Rightarrow> bool \<Rightarrow> js_error + object_stream"
  c_fGetObject :: "string \<Rightarrow> string \<Rightarrow> string \<Rightarrow> js_error option"
  c_fPutObject :: "string \<Rightarrow> string \<Rightarrow> string \<Rightarrow> bool \<Rightarrow> js_error + string"
  c_copyObject :: "string \<Rightarrow> string \<Rightarrow> string \<Rightarrow> js_error + string"
  c_getObject :: "string \<Rightarrow> string \<Rightarrow> js_error + string"
  c_putObject :: "string \<Rightarrow> string \<Rightarrow> string \<Rightarrow> js_error + string"
  c_removeObjects :: "string \<Rightarrow> string list \<Rightarrow> js_error option"
  c_removeBucket :: "string \<Rightarrow> js_error option"
  c_makeBucket :: "string \<Rightarrow> string \<Rightarrow> js_error option"

text \<open>A responder: its mount path (\<open>/s3/<mountName>\<close>), its endpoint and its client.\<close>

record responder =
  mountPath :: string
  endPoint :: string
  client :: s3_client

text \<open>A source provider of \<open>cp\<close>: tagged \<open>s3\<close> (a responder) or not.\<close>

datatype vfs = S3 responder | OtherVFS

fun isS3Provider :: "vfs option \<Rightarrow> bool" where
  "isS3Provider (Some (S3 _)) = True"
| "isS3Provider _ = False"

text \<open>
  What the responder takes from outside the repository's files under \<open>src/\<close>: the REPL's
  \<open>vfs ls\<close> (the paths of its \<open>content\<close>), \<open>fs.stat\<close> (whether the path is a directory, or
  an error), \<open>micromatch.isMatch\<close>, \<open>path.join\<close> and \<open>path.basename\<close>, the shell's
  \<open>encodeComponent\<close>, the i18n table (a key and its arguments), and the two scale-out
  runners.
\<close>

record s3_env =
  rexec_ls :: "string \<Rightarrow> js_error + string list"
  fs_stat :: "string \<Rightarrow> js_error + bool"
  isMatch :: "string \<Rightarrow> string \<Rightarrow> bool"
  path_join :: "string list \<Rightarrow> string"
  basename :: "string \<Rightarrow> string"
  s3_encodeComponent :: "string \<Rightarrow> string"
  s3_strings :: "string \<Rightarrow> string list \<Rightarrow> string"
  runWithProgress :: "string list \<Rightarrow> js_error + string"
  runWithLogs :: "string list \<Rightarrow> js_error + string list"

text \<open>The flags of \<open>parsedOptions\<close> that the responder reads, by their truthiness.\<close>

record s3_options =
  opt_P :: bool
  opt_s :: bool
  opt_c :: bool
  opt_l :: bool
  opt_d :: bool

subsection \<open>Paths\<close>

text \<open>\<open>.\<close> of a regular expression matches anything but a line terminator.\<close>

definition line_terminator :: "char \<Rightarrow> bool" where
  "line_terminator c = (c = CHR 0x0A \<or> c = CHR 0x0D)"

text \<open>
  \<open>filepath.replace(this.s3Prefix, '')\<close> with \<open>s3Prefix = ^<mountPath>\/?\<close>: a leading
  mount path and one slash after it are removed (mount paths are \<open>/s3/\<close> and a name
  without characters special to regular expressions).
\<close>

definition strip_s3Prefix :: "responder \<Rightarrow> string \<Rightarrow> string" where
  "strip_s3Prefix r filepath =
     (if prefix (mountPath r) filepath then
        (case drop (length (mountPath r)) filepath of
           c # rest \<Rightarrow> if c = CHR ''/'' then rest else c # rest
         | [] \<Rightarrow> [])
      else filepath)"

text \<open>
  \<open>split\<close>: the first match of \<open>/([^/]+)\/?(.*)\*?/\<close> in the stripped path. The match
  starts at the first character that is not a slash; the bucket name runs to the next
  slash, and after that one slash the file name runs to the end of the line (the greedy
  \<open>.*\<close> leaves nothing for \<open>\*?\<close>). With no such character \<open>match\<close> returns \<open>null\<close> and
  the destructuring throws a \<open>TypeError\<close>.
\<close>

record split_result =
  bucketName :: string
  fileName :: string

definition split :: "responder \<Rightarrow> string \<Rightarrow> js_error + split_result" where
  "split r filepath =
     (let p = dropWhile (\<lambda>c. c = CHR ''/'') (strip_s3Prefix r filepath) in
      if p = [] then Inl (new_TypeError ''object null is not iterable'')
      else
        let rest = dropWhile (\<lambda>c. c \<noteq> CHR ''/'') p in
        Inr \<lparr>bucketName = takeWhile (\<lambda>c. c \<noteq> CHR ''/'') p,
             fileName = takeWhile (\<lambda>c. \<not> line_terminator c) (drop 1 rest)\<rparr>)"

text \<open>The command \<open>vfs ls\<close> over encoded paths, and its awaited result.\<close>

definition vfs_ls_command :: "s3_env \<Rightarrow> string list \<Rightarrow> string" where
  "vfs_ls_command env filepaths = ''vfs ls '' @ js_join '' '' (map (s3_encodeComponent env) filepaths)"

subsection \<open>Listing\<close>

definition listBuckets :: "s3_env \<Rightarrow> responder \<Rightarrow> dir_entry list io" where
  "listBuckets env r =
     bind (call (Client (mountPath r) ListBuckets) (c_listBuckets (client r)))
       (\<lambda>buckets. ret (map (\<lambda>name.
          \<lparr>de_name = name, de_path = path_join env [mountPath r, name], de_size = 0,
           de_mtimeMs = 0, de_nameForDisplay = name, de_isFile = False,
           de_isDirectory = True\<rparr>) buckets))"

definition listBucketsMatching :: "s3_env \<Rightarrow> responder \<Rightarrow> string \<Rightarrow> dir_entry list io" where
  "listBucketsMatching env r pattern =
     bind (listBuckets env r)
       (\<lambda>allBuckets. ret (filter (\<lambda>b. isMatch env (de_name b) pattern) allBuckets))"

text \<open>
  \<open>coded_error\<close> is the wrapping of \<open>cp\<close> and \<open>objectsIn\<close>:
  \<open>new Error(err.message)\<close> with \<open>code = err['httpstatuscode'] || err['code']\<close>.
\<close>

definition coded_error :: "js_error \<Rightarrow> js_error" where
  "coded_error err = (new_Error (message err))\<lparr>code := js_or (httpstatuscode err) (code err)\<rparr>"

text \<open>
  \<open>listObjectsMatching\<close>. A throw of \<open>client.listObjects\<close> itself is caught and thrown
  again as \<open>new Error(err.message)\<close>. An \<open>error\<close> event of the stream rejects with a coded
  error whose message falls back to \<open>Error listing s3 objects\<close>; otherwise the entries
  are the objects that pass the filter of the \<open>data\<close> handler.
\<close>

definition listObjectsMatching ::
  "s3_env \<Rightarrow> responder \<Rightarrow> string \<Rightarrow> string \<Rightarrow> string \<Rightarrow> bool \<Rightarrow> dir_entry list io" where
  "listObjectsMatching env r bucket pre pattern displayFullPath =
     (case c_listObjects (client r) bucket (Some pre) False of
        Inl err \<Rightarrow> call (Client (mountPath r) (ListObjects bucket (Some pre) False))
                     (Inl (new_Error (message err)))
      | Inr objectStream \<Rightarrow>
          call (Client (mountPath r) (ListObjects bucket (Some pre) False))
            (case ending objectStream of
               StreamError err \<Rightarrow>
                 Inl ((new_Error (if message err = [] then ''Error listing s3 objects''
                                  else message err))
                        \<lparr>code := js_or (httpstatuscode err) (code err)\<rparr>)
             | StreamEnd \<Rightarrow>
                 Inr (map (\<lambda>obj.
                        let path = path_join env [mountPath r, bucket, obj_name obj] in
                        \<lparr>de_name = obj_name obj, de_path = path, de_size = obj_size obj,
                         de_mtimeMs = obj_lastModified obj,
                         de_nameForDisplay = (if displayFullPath then path else obj_name obj),
                         de_isFile = True, de_isDirectory = False\<rparr>)
                      (filter (\<lambda>obj.
                           (pattern = [] \<and> obj_name obj = pre)
                           \<or> (pattern \<noteq> [] \<and> isMatch env (obj_name obj) (pre @ pattern)))
                         (items objectStream)))))"

text \<open>
  The first match of \<open>/([^/*{]+)(\/?)([^*{]*)(.*)/\<close>: bucket name, the slash after it,
  the prefix and the wildcard suffix; \<open>None\<close> when \<open>match\<close> returns \<open>null\<close>.
\<close>

definition bucket_char :: "char \<Rightarrow> bool" where
  "bucket_char c = (c \<noteq> CHR ''/'' \<and> c \<noteq> CHR ''*'' \<and> c \<noteq> CHR ''{'')"

definition prefix_char :: "char \<Rightarrow> bool" where
  "prefix_char c = (c \<noteq> CHR ''*'' \<and> c \<noteq> CHR ''{'')"

definition match_listing :: "string \<Rightarrow> (string \<times> string \<times> string \<times> string) option" where
  "match_listing filepath =
     (let p = dropWhile (\<lambda>c. \<not> bucket_char c) filepath in
      if p = [] then None
      else
        let bucket = takeWhile bucket_char p;
            r1 = dropWhile bucket_char p;
            bucketNameSlash = (if prefix ''/'' r1 then ''/'' else []);
            r2 = drop (length bucketNameSlash) r1;
            pre = takeWhile prefix_char r2;
            wildcardSuffix = takeWhile (\<lambda>c. \<not> line_terminator c) (dropWhile prefix_char r2)
        in Some (bucket, bucketNameSlash, pre, wildcardSuffix))"

definition listObjects :: "s3_env \<Rightarrow> responder \<Rightarrow> string \<Rightarrow> bool \<Rightarrow> dir_entry list io" where
  "listObjects env r filepath dashD =
     (case match_listing filepath of
        None \<Rightarrow> throw (new_TypeError ''object null is not iterable'')
      | Some (bucket, bucketNameSlash, pre, wildcardSuffix) \<Rightarrow>
          let pattern =
                (if length pre = 0 \<and> (length wildcardSuffix = 0 \<or> wildcardSuffix = ''*'')
                 then ''*'' else wildcardSuffix)
          in
          if bucketNameSlash = [] \<and> dashD then listBucketsMatching env r filepath
          else if bucketNameSlash = [] then
            bind (listBucketsMatching env r filepath)
              (\<lambda>buckets.
                 bind (promise_all
                         (map (\<lambda>bucketEntry.
                                 listObjectsMatching env r (de_name bucketEntry) pre pattern False)
                            buckets))
                   (\<lambda>lists. ret (concat lists)))
          else listObjectsMatching env r bucket pre pattern False)"

text \<open>
  \<open>dirstat\<close>. The promise of \<open>listBuckets().catch(...)\<close> is returned without \<open>await\<close>, so
  its rejection (a new error with the same message) leaves the \<open>try\<close>; the listing of
  objects is awaited inside the \<open>try\<close>, and the \<open>catch\<close> block logs and returns \<open>[]\<close>.
\<close>

definition dirstat :: "s3_env \<Rightarrow> responder \<Rightarrow> string \<Rightarrow> bool \<Rightarrow> dir_entry list io" where
  "dirstat env r filepath dashD =
     (if length filepath = 0 then
        try_catch (listBuckets env r) (\<lambda>err. throw (new_Error (message err)))
      else
        try_catch (listObjects env r filepath dashD) (\<lambda>err. ret []))"

definition ls :: "s3_env \<Rightarrow> responder \<Rightarrow> s3_options \<Rightarrow> string list \<Rightarrow> dir_entry list io" where
  "ls env r parsedOptions filepaths =
     bind (promise_all
             (map (\<lambda>filepath. dirstat env r (strip_s3Prefix r filepath) (opt_d parsedOptions))
                filepaths))
       (\<lambda>lists. ret (concat lists))"

subsection \<open>Copy\<close>

text \<open>\<open>Array.prototype.slice(begin, end)\<close>, with JavaScript's reading of negative
  indices, and \<open>slice(begin)\<close> to the end of the array.\<close>

definition js_slice_index :: "nat \<Rightarrow> int \<Rightarrow> nat" where
  "js_slice_index n i = (if i < 0 then nat (max (int n + i) 0) else min (nat i) n)"

definition js_slice :: "'a list \<Rightarrow> int \<Rightarrow> int \<Rightarrow> 'a list" where
  "js_slice xs b e =
     (let from = js_slice_index (length xs) b; to = js_slice_index (length xs) e
      in take (to - from) (drop from xs))"

definition js_slice_from :: "'a list \<Rightarrow> int \<Rightarrow> 'a list" where
  "js_slice_from xs b = drop (js_slice_index (length xs) b) xs"

text \<open>What \<open>cp\<close> resolves with: the array of the results of its copy tasks (a message,
  or the table of a scale-out run), or the message of \<open>fGetObject\<close>.\<close>

datatype cp_value = CpString string | CpTable string

datatype cp_result = CpArray "cp_value list" | CpOne string

text \<open>\<open>/index.html$/\<close>: the path ends with \<open>index\<close>, any one character that is not a line
  terminator, and \<open>html\<close>.\<close>

definition ends_with_index_html :: "string \<Rightarrow> bool" where
  "ends_with_index_html p =
     (let n = length p in
      10 \<le> n \<and> take 5 (drop (n - 10) p) = ''index'' \<and> \<not> line_terminator (p ! (n - 5))
      \<and> drop (n - 4) p = ''html'')"

text \<open>
  \<open>fPutObject\<close>: every resolved source is uploaded to the bucket of the destination,
  under the destination's file name or else its own base name.
\<close>

definition fPutObject ::
  "s3_env \<Rightarrow> responder \<Rightarrow> s3_options \<Rightarrow> string list \<Rightarrow> string \<Rightarrow> string io" where
  "fPutObject env r parsedOptions srcFilepaths dstFilepath =
     bind (call (Rexec (vfs_ls_command env srcFilepaths)) (Inr ()))
       (\<lambda>_. case split r dstFilepath of
          Inl err \<Rightarrow> throw err
        | Inr dst \<Rightarrow>
          bind (rexec_ls env (vfs_ls_command env srcFilepaths), [])
            (\<lambda>srcs.
               bind (promise_all
                       (map (\<lambda>p.
                               let objectName = (if fileName dst \<noteq> [] then fileName dst
                                                 else basename env p)
                               in call (Client (mountPath r)
                                          (FPutObject (bucketName dst) objectName p (opt_P parsedOptions)))
                                       (c_fPutObject (client r) (bucketName dst) objectName p
                                          (opt_P parsedOptions)))
                          srcs))
                 (\<lambda>etags.
                    if opt_P parsedOptions then
                      (let ep = (if prefix ''http'' (endPoint r) then endPoint r
                                 else ''https://'' @ endPoint r)
                       in if length etags = 1 then
                            ret (s3_strings env ''Published object as''
                                   [ep @ ''/'' @ bucketName dst @ ''/'' @ basename env (srcs ! 0)])
                          else if \<exists>p \<in> set srcs. ends_with_index_html p then
                            ret (s3_strings env ''Published object as''
                                   [ep @ ''/'' @ bucketName dst @ ''/index.html''])
                          else
                            ret (s3_strings env ''Published N objects to''
                                   [js_number_to_string (int (length etags)),
                                    ep @ ''/'' @ bucketName dst]))
                    else if length etags = 1 then
                      ret (s3_strings env ''Created object with etag'' [etags ! 0])
                    else
                      ret (s3_strings env ''Created objects with etags'' [js_join '', '' etags]))))"

text \<open>
  \<open>fGetObject\<close>. The \<open>vfs ls\<close> command is sent first and awaited later. \<open>fs.stat\<close> of the
  destination decides \<open>dstIsDirectory\<close>: a missing path (\<open>ENOENT\<close>) is a new file, any
  other error rejects. The guard compares \<open>srcFilepaths.length\<close>, the number of source
  paths passed in, with 1. Then every path that \<open>vfs ls\<close> resolved is downloaded: into
  the directory, or to the destination path itself.
\<close>

definition fetched_message :: "string list \<Rightarrow> string \<Rightarrow> string" where
  "fetched_message fetched dstFilepath =
     (let N = length fetched in
      ''Fetched '' @ js_join '', '' (js_slice fetched 0 (int N - 2))
      @ (if N \<le> 2 then [] else '', '')
      @ js_join (if N = 2 then '' and '' else '', and '') (js_slice_from fetched (int N - 2))
      @ '' to '' @ dstFilepath)"

definition fGetObject :: "s3_env \<Rightarrow> responder \<Rightarrow> string list \<Rightarrow> string \<Rightarrow> string io" where
  "fGetObject env r srcFilepaths dstFilepath =
     bind (call (Rexec (vfs_ls_command env srcFilepaths)) (Inr ()))
       (\<lambda>_.
          bind (call (Stat dstFilepath)
                  (case fs_stat env dstFilepath of
                     Inl err \<Rightarrow> if code err = JStr ''ENOENT'' then Inr False else Inl err
                   | Inr isDirectory \<Rightarrow> Inr isDirectory))
            (\<lambda>dstIsDirectory.
               if \<not> dstIsDirectory \<and> length srcFilepaths > 1 then
                 throw (new_Error ''Destination is not a directory'')
               else
                 bind (rexec_ls env (vfs_ls_command env srcFilepaths), [])
                   (\<lambda>srcs.
                      bind (promise_all
                              (map (\<lambda>srcFilepath.
                                      case split r srcFilepath of
                                        Inl err \<Rightarrow> throw err
                                      | Inr src \<Rightarrow>
                                          let dst = (if dstIsDirectory
                                                     then path_join env [dstFilepath, fileName src]
                                                     else dstFilepath)
                                          in bind (call (Client (mountPath r)
                                                          (FGetObject (bucketName src) (fileName src) dst))
                                                     (case c_fGetObject (client r) (bucketName src)
                                                             (fileName src) dst of
                                                        Some err \<Rightarrow> Inl err
                                                      | None \<Rightarrow> Inr ()))
                                               (\<lambda>_. ret (basename env srcFilepath)))
                                 srcs))
                        (\<lambda>fetched. ret (fetched_message fetched dstFilepath)))))"

definition copied_message :: "string list \<Rightarrow> string" where
  "copied_message etags =
     (let N = length etags in
      if N = 0 then ''Source files not found''
      else ''Copied to '' @ (if N = 1 then ''object'' else ''objects'') @ '' with ''
           @ (if N = 1 then ''etag'' else ''etags'') @ '' '' @ js_join '', '' etags)"

definition scale_out_commands :: "s3_env \<Rightarrow> string list \<Rightarrow> string \<Rightarrow> string list" where
  "scale_out_commands env srcs dstFilepath =
     map (\<lambda>p. ''cp '' @ s3_encodeComponent env p @ '' '' @ s3_encodeComponent env dstFilepath) srcs"

definition intraCopyObject ::
  "s3_env \<Rightarrow> responder \<Rightarrow> s3_options \<Rightarrow> string list \<Rightarrow> string \<Rightarrow> cp_value io" where
  "intraCopyObject env r parsedOptions srcFilepaths dstFilepath =
     bind (call (Rexec (vfs_ls_command env srcFilepaths)) (rexec_ls env (vfs_ls_command env srcFilepaths)))
       (\<lambda>srcs.
          if opt_s parsedOptions then
            bind (call (RunWithProgress (scale_out_commands env srcs dstFilepath))
                    (runWithProgress env (scale_out_commands env srcs dstFilepath)))
              (\<lambda>table. ret (CpTable table))
          else
            bind (promise_all
                    (map (\<lambda>srcFilepath.
                            case split r srcFilepath of
                              Inl err \<Rightarrow> throw err
                            | Inr src \<Rightarrow>
                               (case split r dstFilepath of
                                  Inl err \<Rightarrow> throw err
                                | Inr dst \<Rightarrow>
                                   let dstName = (if fileName dst \<noteq> [] then fileName dst
                                                  else fileName src);
                                       source = ''/'' @ bucketName src @ ''/'' @ fileName src
                                   in call (Client (mountPath r)
                                              (CopyObject (bucketName dst) dstName source))
                                        (c_copyObject (client r) (bucketName dst) dstName source)))
                       srcs))
              (\<lambda>etags. ret (CpString (copied_message etags))))"

text \<open>
  \<open>interCopyObject\<close>: the \<open>idx\<close>-th resolved path is read through the provider of the
  \<open>idx\<close>-th source given; destructuring \<open>srcs[idx]\<close> where there is none is a
  \<open>TypeError\<close>.
\<close>

definition interCopyObject ::
  "s3_env \<Rightarrow> responder \<Rightarrow> s3_options \<Rightarrow> (string \<times> responder) list \<Rightarrow> string \<Rightarrow> cp_value io" where
  "interCopyObject env r parsedOptions srcs dstFilepath =
     bind (call (Rexec (vfs_ls_command env (map fst srcs)))
             (rexec_ls env (vfs_ls_command env (map fst srcs))))
       (\<lambda>resolved.
          if length resolved = 0 then throw (new_Error ''Nothing to copy'')
          else if opt_s parsedOptions then
            bind (call (RunWithProgress (scale_out_commands env resolved dstFilepath))
                    (runWithProgress env (scale_out_commands env resolved dstFilepath)))
              (\<lambda>table. ret (CpTable table))
          else
            bind (promise_all
                    (map (\<lambda>(srcFilepath, idx).
                            if idx \<ge> length srcs then
                              throw (new_TypeError ''Cannot destructure property provider of undefined'')
                            else
                              let srcProvider = snd (srcs ! idx) in
                              case split srcProvider srcFilepath of
                                Inl err \<Rightarrow> throw err
                              | Inr src \<Rightarrow>
                                 (case split r dstFilepath of
                                    Inl err \<Rightarrow> throw err
                                  | Inr dst \<Rightarrow>
                                     bind (call (Client (mountPath srcProvider)
                                                   (GetObject (bucketName src) (fileName src)))
                                             (c_getObject (client srcProvider) (bucketName src)
                                                (fileName src)))
                                       (\<lambda>stream.
                                          let dstName = (if fileName dst \<noteq> [] then fileName dst
                                                         else fileName src)
                                          in call (Client (mountPath r)
                                                     (PutObject (bucketName dst) dstName stream))
                                               (c_putObject (client r) (bucketName dst) dstName stream))))
                       (zip resolved [0 ..< length resolved])))
              (\<lambda>etags. ret (CpString (copied_message etags))))"

text \<open>
  \<open>cp\<close>. \<open>xs[idx]\<close> past the end of \<open>srcIsSelf\<close> or \<open>srcProvider\<close> is \<open>undefined\<close>, which
  is falsy and no S3 provider. With \<open>dstIsSelf\<close> the copy tasks are awaited inside the
  \<open>try\<close>, so a rejection is wrapped by \<open>coded_error\<close>; the promise of \<open>fGetObject\<close> is
  returned without \<open>await\<close>, so its rejection leaves \<open>cp\<close> as it is.
\<close>

definition nth_bool :: "bool list \<Rightarrow> nat \<Rightarrow> bool" where
  "nth_bool xs i = (i < length xs \<and> xs ! i)"

definition nth_provider :: "vfs list \<Rightarrow> nat \<Rightarrow> vfs option" where
  "nth_provider xs i = (if i < length xs then Some (xs ! i) else None)"

definition selfSrc :: "string list \<Rightarrow> bool list \<Rightarrow> string list" where
  "selfSrc srcFilepaths srcIsSelf =
     map fst (filter (\<lambda>(p, idx). nth_bool srcIsSelf idx)
                (zip srcFilepaths [0 ..< length srcFilepaths]))"

definition otherNonS3Src :: "string list \<Rightarrow> bool list \<Rightarrow> vfs list \<Rightarrow> string list" where
  "otherNonS3Src srcFilepaths srcIsSelf srcProvider =
     map fst (filter (\<lambda>(p, idx). \<not> nth_bool srcIsSelf idx \<and> \<not> isS3Provider (nth_provider srcProvider idx))
                (zip srcFilepaths [0 ..< length srcFilepaths]))"

definition otherS3Src :: "string list \<Rightarrow> bool list \<Rightarrow> vfs list \<Rightarrow> (string \<times> responder) list" where
  "otherS3Src srcFilepaths srcIsSelf srcProvider =
     concat (map (\<lambda>(p, idx).
                    case nth_provider srcProvider idx of
                      Some (S3 provider) \<Rightarrow> if \<not> nth_bool srcIsSelf idx then [(p, provider)] else []
                    | _ \<Rightarrow> [])
               (zip srcFilepaths [0 ..< length srcFilepaths]))"

definition cp_tasks ::
  "s3_env \<Rightarrow> responder \<Rightarrow> s3_options \<Rightarrow> string list \<Rightarrow> string \<Rightarrow> bool list \<Rightarrow> vfs list
     \<Rightarrow> cp_value io list" where
  "cp_tasks env r parsedOptions srcFilepaths dstFilepath srcIsSelf srcProvider =
     (let copyInTasks =
            (if length (otherNonS3Src srcFilepaths srcIsSelf srcProvider) = 0 then []
             else [bind (fPutObject env r parsedOptions
                           (otherNonS3Src srcFilepaths srcIsSelf srcProvider) dstFilepath)
                     (\<lambda>m. ret (CpString m))]);
          intraClientCopyTasks =
            (if length (selfSrc srcFilepaths srcIsSelf) = 0 then []
             else [intraCopyObject env r parsedOptions (selfSrc srcFilepaths srcIsSelf) dstFilepath]);
          interClientCopyTasks =
            (if length (otherS3Src srcFilepaths srcIsSelf srcProvider) = 0 then []
             else [interCopyObject env r parsedOptions
                     (otherS3Src srcFilepaths srcIsSelf srcProvider) dstFilepath])
      in copyInTasks @ intraClientCopyTasks @ interClientCopyTasks)"

definition cp ::
  "s3_env \<Rightarrow> responder \<Rightarrow> s3_options \<Rightarrow> string list \<Rightarrow> string \<Rightarrow> bool list \<Rightarrow> bool \<Rightarrow> vfs list
     \<Rightarrow> cp_result io" where
  "cp env r parsedOptions srcFilepaths dstFilepath srcIsSelf dstIsSelf srcProvider =
     (if dstIsSelf then
        try_catch
          (bind (promise_all
                   (cp_tasks env r parsedOptions srcFilepaths dstFilepath srcIsSelf srcProvider))
             (\<lambda>results. ret (CpArray results)))
          (\<lambda>err. throw (coded_error err))
      else
        bind (fGetObject env r srcFilepaths dstFilepath) (\<lambda>m. ret (CpOne m)))"

subsection \<open>Remove\<close>






subsection \<open>Buckets\<close>

text \<open>
  \<open>mkdir\<close>. \<open>split\<close> is outside the \<open>try\<close>. When \<open>makeBucket\<close> throws and the message
  matches \<open>/Invalid bucket name/\<close>, the first test that holds of the \<open>else if\<close> chain
  appends its sentence; otherwise the message is thrown again unchanged.
\<close>

definition mkdir :: "responder \<Rightarrow> string \<Rightarrow> unit io" where
  "mkdir r filepath =
     (case split r filepath of
        Inl err \<Rightarrow> throw err
      | Inr sp \<Rightarrow>
          (case c_makeBucket (client r) (bucketName sp) [] of
             None \<Rightarrow> call (Client (mountPath r) (MakeBucket (bucketName sp) [])) (Inr ())
           | Some err \<Rightarrow>
               call (Client (mountPath r) (MakeBucket (bucketName sp) []))
                 (Inl (new_Error
                    (if js_includes ''Invalid bucket name'' (message err) then
                       (if length (bucketName sp) \<le> 2 then
                          message err @ ''. Bucket names must have at least 3 characters.''
                        else if length (bucketName sp) > 63 then
                          message err @ ''. Bucket names must have no more than 63 characters.''
                        else if CHR ''_'' \<in> set (bucketName sp) then
                          message err @ ''. Bucket names must not contain underscore.''
                        else if suffix ''-'' (bucketName sp) then
                          message err @ ''. Bucket names must not end with a dash.''
                        else if CHR ''.'' \<in> set (bucketName sp) then
                          message err @ ''. Bucket names must not contain dots.''
                        else message err)
                     else message err)))))"


subsection \<open>Search\<close>

text \<open>
  \<open>grep\<close> resolves with a count, with a list of file names, or with the outputs of the
  per-file commands. \<open>s.split(/\n/).filter(_ => _).length\<close> counts the non-empty lines
  of an output. With \<open>-l\<close> the name pushed for the output at index \<open>idx\<close> is
  \<open>filepaths[idx]\<close>, an element of the paths passed in (\<open>undefined\<close>, here \<open>None\<close>, past
  their end).
\<close>

datatype grep_result = GrepCount nat | GrepFiles "string option list" | GrepMatches "string list"

fun split_lines :: "string \<Rightarrow> string list" where
  "split_lines [] = [[]]"
| "split_lines (c # cs) =
     (if c = CHR 0x0A then [] # split_lines cs
      else (case split_lines cs of l # ls' \<Rightarrow> (c # l) # ls' | [] \<Rightarrow> [[c]]))"

definition count_matches :: "string \<Rightarrow> nat" where
  "count_matches out = length (filter (\<lambda>l. l \<noteq> []) (split_lines out))"

definition nth_path :: "string list \<Rightarrow> nat \<Rightarrow> string option" where
  "nth_path xs i = (if i < length xs then Some (xs ! i) else None)"

definition grep_commands :: "s3_env \<Rightarrow> string \<Rightarrow> string list \<Rightarrow> string list" where
  "grep_commands env pattern srcs =
     map (\<lambda>p. ''cat '' @ s3_encodeComponent env p @ '' | grep '' @ s3_encodeComponent env pattern) srcs"

definition grep ::
  "s3_env \<Rightarrow> responder \<Rightarrow> s3_options \<Rightarrow> string \<Rightarrow> string list \<Rightarrow> grep_result io" where
  "grep env r parsedOptions pattern filepaths =
     bind (call (Rexec (vfs_ls_command env filepaths)) (rexec_ls env (vfs_ls_command env filepaths)))
       (\<lambda>srcs.
          bind (call (RunWithLogs (grep_commands env pattern srcs))
                  (runWithLogs env (grep_commands env pattern srcs)))
            (\<lambda>perFileResults.
               if opt_c parsedOptions then
                 ret (GrepCount (foldl (\<lambda>sum count. sum + count) 0 (map count_matches perFileResults)))
               else if opt_l parsedOptions then
                 ret (GrepFiles
                        (map (\<lambda>(matches, idx). nth_path filepaths idx)
                           (filter (\<lambda>(matches, idx). length matches > 0)
                              (zip perFileResults [0 ..< length perFileResults]))))
               else if list_all (\<lambda>m. length m = 0) perFileResults then
                 throw (new_Error [])
               else ret (GrepMatches perFileResults)))"

section \<open>Auxiliary notions\<close>


text \<open>The entry that \<open>listBuckets\<close> makes for a bucket name.\<close>

definition bucket_entry :: "s3_env \<Rightarrow> responder \<Rightarrow> string \<Rightarrow> dir_entry" where
  "bucket_entry env r name =
     \<lparr>de_name = name, de_path = path_join env [mountPath r, name], de_size = 0,
      de_mtimeMs = 0, de_nameForDisplay = name, de_isFile = False, de_isDirectory = True\<rparr>"


section \<open>Concrete inputs\<close>

text \<open>The inputs at which the theorems below are instantiated.\<close>

definition two_labels_options :: kube_options where
  "two_labels_options =
     \<lparr>getLabel = LabelArray [''a=1'', ''b=2''], isForAllNamespaces = False,
      field_selector = JUndefined, limit = JUndefined\<rparr>"

definition pod_kind :: explained where
  "pod_kind = \<lparr>kind = ''Pod'', version = ''v1'', isClusterScoped = False\<rparr>"




definition opts0 :: fetch_options where
  "opts0 = \<lparr>returnErrors = False, data = JUndefined, headers = None, fo_method = None\<rparr>"

definition state0 :: fetch_state where
  "state0 = \<lparr>attempts = 0, waits = [], commands = []\<rparr>"






text \<open>A browser with a proxy that answers \<open>_fetchfile\<close>, and the same browser without a proxy.\<close>

definition env_browser_proxy :: fetch_env where
  "env_browser_proxy =
     \<lparr>inBrowser = True, hasProxy = True,
      getProxyState = (\<lambda>k. Inr ''http://localhost:8001''),
      needle = (\<lambda>k req. Inr \<lparr>statusCode = 404, body = JStr ''direct''\<rparr>),
      rexec = (\<lambda>k cmd opts. Inr [JStr ''kind: Deployment'', JStr ''second'']),
      encodeComponent = (\<lambda>s. s),
      strings = (\<lambda>s. s)\<rparr>"

definition env_browser_no_proxy :: fetch_env where
  "env_browser_no_proxy = env_browser_proxy\<lparr>hasProxy := False\<rparr>"

text \<open>A storage client on which every operation succeeds, on an empty store; the
  clients below change some of its answers.\<close>

definition quiet_client :: s3_client where
  "quiet_client =
     \<lparr>c_listBuckets = Inr [],
      c_listObjects = (\<lambda>bucket pre recursive. Inr \<lparr>items = [], ending = StreamEnd\<rparr>),
      c_fGetObject = (\<lambda>bucket object dst. None),
      c_fPutObject = (\<lambda>bucket object file public. Inr ''etag0''),
      c_copyObject = (\<lambda>bucket object source. Inr ''etag0''),
      c_getObject = (\<lambda>bucket object. Inr ''stream0''),
      c_putObject = (\<lambda>bucket object stream. Inr ''etag0''),
      c_removeObjects = (\<lambda>bucket objects. None),
      c_removeBucket = (\<lambda>bucket. None),
      c_makeBucket = (\<lambda>bucket region. None)\<rparr>"

text \<open>A client that rejects every bucket name, with the message of minio.\<close>

definition strict_names_client :: s3_client where
  "strict_names_client =
     quiet_client\<lparr>c_makeBucket := (\<lambda>bucket region. Some (new_Error (''Invalid bucket name: '' @ bucket)))\<rparr>"

text \<open>A bucket name of 64 characters.\<close>

definition name64 :: string where
  "name64 = replicate 64 CHR ''a''"

text \<open>The responder mounted at \<open>/s3/ibm\<close> over a client.\<close>

definition ibm :: "s3_client \<Rightarrow> responder" where
  "ibm c = \<lparr>mountPath = ''/s3/ibm'', endPoint = ''s3.example.com'', client = c\<rparr>"

text \<open>A matcher for names and patterns with a final \<open>*\<close>, and an environment with it:
  no file exists locally, paths are joined with slashes.\<close>

definition glob_match :: "string \<Rightarrow> string \<Rightarrow> bool" where
  "glob_match name pattern =
     (if pattern \<noteq> [] \<and> last pattern = CHR ''*'' then prefix (butlast pattern) name
      else name = pattern)"

definition local_env :: s3_env where
  "local_env =
     \<lparr>rexec_ls = (\<lambda>cmd. Inr []),
      fs_stat = (\<lambda>p. Inl ((new_Error ''no such file or directory'')\<lparr>code := JStr ''ENOENT''\<rparr>)),
      isMatch = glob_match,
      path_join = js_join ''/'',
      basename = (\<lambda>p. rev (takeWhile (\<lambda>c. c \<noteq> CHR ''/'') (rev p))),
      s3_encodeComponent = (\<lambda>s. s),
      s3_strings = (\<lambda>key args. key),
      runWithProgress = (\<lambda>cmds. Inr ''table''),
      runWithLogs = (\<lambda>cmds. Inr [])\<rparr>"



definition no_options :: s3_options where
  "no_options = \<lparr>opt_P = False, opt_s = False, opt_c = False, opt_l = False, opt_d = False\<rparr>"





text \<open>A REPL whose \<open>vfs ls\<close> expands \<open>*.txt\<close> to two objects, and a scale-out run in which
  only the second object, \<open>b.txt\<close>, has a matching line.\<close>

definition logs_env :: s3_env where
  "logs_env =
     local_env
       \<lparr>rexec_ls := (\<lambda>cmd.
          if cmd = ''vfs ls /s3/ibm/logs/*.txt /s3/ibm/logs/z.log''
          then Inr [''/s3/ibm/logs/a.txt'', ''/s3/ibm/logs/b.txt'', ''/s3/ibm/logs/z.log'']
          else if cmd = ''vfs ls /s3/ibm/logs/*.txt''
          then Inr [''/s3/ibm/logs/a.txt'', ''/s3/ibm/logs/b.txt'']
          else Inr []),
        runWithLogs := (\<lambda>cmds.
          Inr (map (\<lambda>cmd. if cmd = ''cat /s3/ibm/logs/b.txt | grep error''
                          then ''error: disk full'' else []) cmds))\<rparr>"

definition filenames_only :: s3_options where
  "filenames_only = no_options\<lparr>opt_l := True\<rparr>"

definition count_only :: s3_options where
  "count_only = no_options\<lparr>opt_c := True\<rparr>"

section \<open>The URL formatter: label selectors\<close>

lemma set_js_join: "set (js_join sep xs) \<subseteq> set sep \<union> \<Union> (set ` set xs)"
  by (induction sep xs rule: js_join.induct) auto

lemma digit_char_not_comma: "d < 16 \<Longrightarrow> digit_char d \<noteq> CHR '',''"
proof -
  have "\<forall>k \<in> set [0..<16]. digit_char k \<noteq> CHR '',''"
    by code_simp
  then show "d < 16 \<Longrightarrow> digit_char d \<noteq> CHR '',''" by simp
qed

lemma comma_reserved: "\<not> uri_unreserved CHR '',''"
  by (simp add: uri_unreserved_def)

lemma encode_char_no_comma: "CHR '','' \<notin> set (encode_char c)"
proof -
  have "(of_char c :: nat) < 256" by simp
  then have "(of_char c :: nat) div 16 < 16" "(of_char c :: nat) mod 16 < 16" by arith+
  then have hi: "digit_char ((of_char c :: nat) div 16) \<noteq> CHR '',''"
    and lo: "digit_char ((of_char c :: nat) mod 16) \<noteq> CHR '',''"
    by (simp_all add: digit_char_not_comma)
  show ?thesis
  proof (cases "uri_unreserved c")
    case True
    then have "c \<noteq> CHR '',''" using comma_reserved by auto
    with True show ?thesis by (simp add: encode_char_def)
  next
    case False
    then show ?thesis using hi lo by (simp add: encode_char_def)
  qed
qed

lemma encodeURIComponent_no_comma: "CHR '','' \<notin> set (encodeURIComponent s)"
  by (auto simp: encodeURIComponent_def encode_char_no_comma)

lemma labelQuery_no_comma: "CHR '','' \<notin> set (labelQuery l)"
  by (simp add: labelQuery_def encodeURIComponent_no_comma)

lemma label_terms_no_comma: "CHR '','' \<notin> set (js_join ''&'' (map labelQuery labels))"
  using set_js_join [of "''&''" "map labelQuery labels"] labelQuery_no_comma by auto

lemma labelQuery_a1: "labelQuery ''a=1'' = ''labelSelector=a%3D1''"
  by (simp add: labelQuery_def encodeURIComponent_def encode_char_def uri_unreserved_def digit_char_def)

lemma labelQuery_b2: "labelQuery ''b=2'' = ''labelSelector=b%3D2''"
  by (simp add: labelQuery_def encodeURIComponent_def encode_char_def uri_unreserved_def digit_char_def)

text \<open>
  Claim C6. For a namespaced kind (not cluster scoped, not \<open>Namespace\<close>, no all-namespaces
  request) whose options carry an array of label selectors \<open>labels\<close>, \<open>formatter(true, true)\<close>
  is the path followed by \<open>?\<close> and the query terms joined by \<open>&\<close>; the first
  \<open>length labels\<close> terms are \<open>labelSelector=\<close> followed by the percent-encoded selector, one
  term per selector in order, and no comma is introduced between them. With the two
  selectors \<open>a=1\<close> and \<open>b=2\<close> and no other query option the URL ends with
  \<open>?labelSelector=a%3D1&labelSelector=b%3D2\<close>.
\<close>

theorem urlFormatterFor_multiple_labels:
  assumes "getLabel parsedOptions = LabelArray labels" and "labels \<noteq> []"
    and "\<not> isForAllNamespaces parsedOptions" and "kind ex \<noteq> ''Namespace''"
    and "\<not> isClusterScoped ex"
  shows "urlFormatterFor namespace parsedOptions ex True True None =
           ''kubernetes:///'' @ apiOnPath ex @ ''/namespaces/'' @ encodeURIComponent namespace
           @ kindOnPath ex @ ''?''
           @ js_join ''&'' (labelQueries parsedOptions @ fieldQueries parsedOptions @ limitQueries parsedOptions)
         \<and> length (labelQueries parsedOptions) = length labels
         \<and> (\<forall>i < length labels.
               labelQueries parsedOptions ! i = ''labelSelector='' @ encodeURIComponent (labels ! i))
         \<and> CHR '','' \<notin> set (js_join ''&'' (labelQueries parsedOptions))
         \<and> (labels = [''a=1'', ''b=2''] \<and> fieldQueries parsedOptions = [] \<and> limitQueries parsedOptions = []
              \<longrightarrow> suffix ''?labelSelector=a%3D1&labelSelector=b%3D2''
                    (urlFormatterFor namespace parsedOptions ex True True None))"
proof -
  have lq: "labelQueries parsedOptions = map labelQuery labels"
    using assms(1) by (simp add: labelQueries_def)
  have ne: "queries parsedOptions \<noteq> []"
    using assms(2) by (simp add: queries_def lq)
  have url: "urlFormatterFor namespace parsedOptions ex True True None =
           ''kubernetes:///'' @ apiOnPath ex @ ''/namespaces/'' @ encodeURIComponent namespace
           @ kindOnPath ex @ ''?''
           @ js_join ''&'' (map labelQuery labels @ fieldQueries parsedOptions @ limitQueries parsedOptions)"
    using assms(3-5) ne by (simp add: urlFormatterFor_def namespaceOnPath_def queries_def lq)
  have nth: "\<forall>i < length labels.
      labelQueries parsedOptions ! i = ''labelSelector='' @ encodeURIComponent (labels ! i)"
    by (simp add: lq labelQuery_def)
  have comma: "CHR '','' \<notin> set (js_join ''&'' (labelQueries parsedOptions))"
    by (simp only: lq label_terms_no_comma not_False_eq_True)
  have ex: "suffix ''?labelSelector=a%3D1&labelSelector=b%3D2''
                    (urlFormatterFor namespace parsedOptions ex True True None)"
    if "labels = [''a=1'', ''b=2'']" "fieldQueries parsedOptions = []" "limitQueries parsedOptions = []"
  proof -
    have "urlFormatterFor namespace parsedOptions ex True True None =
        (''kubernetes:///'' @ apiOnPath ex @ ''/namespaces/'' @ encodeURIComponent namespace
           @ kindOnPath ex) @ ''?labelSelector=a%3D1&labelSelector=b%3D2''"
      unfolding url using that by (simp add: labelQuery_a1 labelQuery_b2)
    then show ?thesis by (metis suffixI)
  qed
  show ?thesis using url lq nth comma ex by simp
qed

theorem urlFormatterFor_multiple_labels_witness:
  "suffix ''?labelSelector=a%3D1&labelSelector=b%3D2''
     (urlFormatterFor ''default'' two_labels_options pod_kind True True None)
   \<and> urlFormatterFor ''default'' two_labels_options pod_kind True True None =
       ''kubernetes:///api/v1/namespaces/default/pods?labelSelector=a%3D1&labelSelector=b%3D2''"
proof -
  have h: "getLabel two_labels_options = LabelArray [''a=1'', ''b=2'']"
      "[''a=1'', ''b=2''] \<noteq> ([] :: string list)"
      "\<not> isForAllNamespaces two_labels_options" "kind pod_kind \<noteq> ''Namespace''"
      "\<not> isClusterScoped pod_kind"
    by (simp_all add: two_labels_options_def pod_kind_def)
  have q: "fieldQueries two_labels_options = []" "limitQueries two_labels_options = []"
    by (simp_all add: two_labels_options_def fieldQueries_def limitQueries_def)
  have "suffix ''?labelSelector=a%3D1&labelSelector=b%3D2''
     (urlFormatterFor ''default'' two_labels_options pod_kind True True None)"
    using urlFormatterFor_multiple_labels [OF h, of "''default''"] q by blast
  moreover have "urlFormatterFor ''default'' two_labels_options pod_kind True True None =
       ''kubernetes:///api/v1/namespaces/default/pods?labelSelector=a%3D1&labelSelector=b%3D2''"
    by code_simp
  ultimately show ?thesis by simp
qed

section \<open>The fetch client: retry on a refused connection\<close>








section \<open>The fetch client: backoff, and the browser path\<close>

lemma snd_fetchOnce: "snd (fetchOnce env url opts s) = snd (underscore_needle env url opts 0 s)"
  by (simp add: fetchOnce_def split: prod.splits sum.splits)












lemma browser_needle:
  assumes "inBrowser env"
  shows "underscore_needle env url opts rc s =
     (if \<not> hasProxy env then (Inl (new_Error (strings env ''Unable to fetch remote file'')), s)
      else (map_sum id (\<lambda>content. \<lparr>statusCode = 200, body = js_nth content 0\<rparr>)
              (rexec env (length (commands s)) (''_fetchfile '' @ encodeComponent env url) opts),
            s\<lparr>commands := commands s @ [''_fetchfile '' @ encodeComponent env url]\<rparr>))"
  using assms by (subst underscore_needle.simps) (simp add: Let_def split: sum.splits)

lemma browser_needle_attempts:
  "inBrowser env \<Longrightarrow> attempts (snd (underscore_needle env url opts rc s)) = attempts s"
  by (simp add: browser_needle)

lemma browser_fetchOnce_attempts:
  "inBrowser env \<Longrightarrow> attempts (snd (fetchOnce env url opts s)) = attempts s"
  by (simp add: snd_fetchOnce browser_needle_attempts)

lemma browser_catch_retry_attempts:
  "inBrowser env \<Longrightarrow> attempts (snd (catch_with (retry env url opts d) p)) = attempts (snd p)"
  by (cases p) (simp add: catch_with_def retry_def browser_fetchOnce_attempts split: sum.splits)

lemma browser_fetchRemote_attempts:
  "inBrowser env \<Longrightarrow> attempts (snd (fetchRemote env url opts s)) = attempts s"
  by (simp add: fetchRemote_def browser_catch_retry_attempts browser_fetchOnce_attempts)

text \<open>
  Claim C5. In a browser \<open>_needle\<close> makes no direct request, and neither does
  \<open>fetchRemote\<close>. With a proxy it sends the one remote command \<open>_fetchfile\<close> followed by
  the encoded URL, and its outcome is that of the command; without a proxy it fails with
  the error \<open>Unable to fetch remote file\<close> and sends nothing.
\<close>

theorem browser_fetch_via_proxy:
  "inBrowser env \<longrightarrow>
     attempts (snd (underscore_needle env url opts retryCount s)) = attempts s
   \<and> attempts (snd (fetchRemote env url opts s)) = attempts s
   \<and> (hasProxy env \<longrightarrow>
        commands (snd (underscore_needle env url opts retryCount s)) =
          commands s @ [''_fetchfile '' @ encodeComponent env url]
        \<and> (\<forall>err. rexec env (length (commands s)) (''_fetchfile '' @ encodeComponent env url) opts = Inl err
              \<longrightarrow> fst (underscore_needle env url opts retryCount s) = Inl err)
        \<and> (\<forall>content. rexec env (length (commands s)) (''_fetchfile '' @ encodeComponent env url) opts = Inr content
              \<longrightarrow> (\<exists>r. fst (underscore_needle env url opts retryCount s) = Inr r)))
   \<and> (\<not> hasProxy env \<longrightarrow>
        underscore_needle env url opts retryCount s =
          (Inl (new_Error (strings env ''Unable to fetch remote file'')), s))"
  by (simp add: browser_needle browser_fetchRemote_attempts)

theorem browser_fetch_via_proxy_witness:
  "underscore_needle env_browser_no_proxy ''https://k8s.io/examples/pod.yaml'' (Some opts0) 0 state0 =
     (Inl (new_Error ''Unable to fetch remote file''), state0)
   \<and> commands (snd (underscore_needle env_browser_proxy ''https://k8s.io/examples/pod.yaml'' (Some opts0) 0 state0)) =
       [''_fetchfile https://k8s.io/examples/pod.yaml'']
   \<and> attempts (snd (fetchRemote env_browser_proxy ''https://k8s.io/examples/pod.yaml'' (Some opts0) state0)) = 0"
proof -
  let ?url = "''https://k8s.io/examples/pod.yaml''"
  have b: "inBrowser env_browser_no_proxy" "\<not> hasProxy env_browser_no_proxy"
      "inBrowser env_browser_proxy" "hasProxy env_browser_proxy"
    by (simp_all add: env_browser_no_proxy_def env_browser_proxy_def)
  have "underscore_needle env_browser_no_proxy ?url (Some opts0) 0 state0 =
     (Inl (new_Error (strings env_browser_no_proxy ''Unable to fetch remote file'')), state0)"
    using browser_fetch_via_proxy [of env_browser_no_proxy ?url "Some opts0" 0 state0] b(1,2) by blast
  moreover have "commands (snd (underscore_needle env_browser_proxy ?url (Some opts0) 0 state0)) =
       commands state0 @ [''_fetchfile '' @ encodeComponent env_browser_proxy ?url]
      \<and> attempts (snd (fetchRemote env_browser_proxy ?url (Some opts0) state0)) = attempts state0"
    using browser_fetch_via_proxy [of env_browser_proxy ?url "Some opts0" 0 state0] b(3,4) by blast
  ultimately show ?thesis
    by (simp add: env_browser_no_proxy_def env_browser_proxy_def state0_def)
qed

text \<open>
  Claim C10. In a browser with a proxy, every result that \<open>_needle\<close> returns has
  \<open>statusCode\<close> 200, and its body is element 0 of the \<open>content\<close> that the \<open>_fetchfile\<close>
  command returned (the first element when there is one).
\<close>

theorem browser_fetch_status_200:
  "inBrowser env \<and> hasProxy env \<longrightarrow>
     (\<forall>r s'. underscore_needle env url opts retryCount s = (Inr r, s') \<longrightarrow> statusCode r = 200)
   \<and> (\<forall>content. rexec env (length (commands s)) (''_fetchfile '' @ encodeComponent env url) opts = Inr content
        \<longrightarrow> fst (underscore_needle env url opts retryCount s) =
              Inr \<lparr>statusCode = 200, body = js_nth content 0\<rparr>
            \<and> (content \<noteq> [] \<longrightarrow> js_nth content 0 = hd content))"
proof (cases "rexec env (length (commands s)) (''_fetchfile '' @ encodeComponent env url) opts")
  case (Inl err)
  then show ?thesis by (simp add: browser_needle)
next
  case (Inr content)
  then show ?thesis by (auto simp: browser_needle js_nth_def hd_conv_nth)
qed

theorem browser_fetch_status_200_witness:
  "fst (underscore_needle env_browser_proxy ''https://k8s.io/examples/pod.yaml'' (Some opts0) 0 state0) =
     Inr \<lparr>statusCode = 200, body = JStr ''kind: Deployment''\<rparr>"
proof -
  let ?url = "''https://k8s.io/examples/pod.yaml''"
  have b: "inBrowser env_browser_proxy \<and> hasProxy env_browser_proxy"
    by (simp add: env_browser_proxy_def)
  have c: "rexec env_browser_proxy (length (commands state0))
      (''_fetchfile '' @ encodeComponent env_browser_proxy ?url) (Some opts0)
        = Inr [JStr ''kind: Deployment'', JStr ''second'']"
    by (simp add: env_browser_proxy_def)
  have "fst (underscore_needle env_browser_proxy ?url (Some opts0) 0 state0) =
      Inr \<lparr>statusCode = 200, body = js_nth [JStr ''kind: Deployment'', JStr ''second''] 0\<rparr>"
    using browser_fetch_status_200 [of env_browser_proxy ?url "Some opts0" 0 state0] b c by blast
  then show ?thesis by (simp add: js_nth_def)
qed

section \<open>The responder: asynchronous code\<close>

lemma bind_Inl [simp]: "bind (Inl err, t) f = (Inl err, t)"
  by (simp add: bind_def)

lemma bind_Inr [simp]: "bind (Inr v, t) f = (fst (f v), t @ snd (f v))"
  by (simp add: bind_def split: prod.splits)



lemma try_catch_Inl [simp]: "try_catch (Inl err, t) h = (fst (h err), t @ snd (h err))"
  by (simp add: try_catch_def split: prod.splits)

lemma try_catch_Inr [simp]: "try_catch (Inr v, t) h = (Inr v, t)"
  by (simp add: try_catch_def)





section \<open>The responder: bucket names\<close>

lemma mkdir_rejected:
  assumes "split r filepath = Inr sp" and "c_makeBucket (client r) (bucketName sp) [] = Some err"
  shows "mkdir r filepath =
     (Inl (new_Error
        (if js_includes ''Invalid bucket name'' (message err) then
           (if length (bucketName sp) \<le> 2 then
              message err @ ''. Bucket names must have at least 3 characters.''
            else if length (bucketName sp) > 63 then
              message err @ ''. Bucket names must have no more than 63 characters.''
            else if CHR ''_'' \<in> set (bucketName sp) then
              message err @ ''. Bucket names must not contain underscore.''
            else if suffix ''-'' (bucketName sp) then
              message err @ ''. Bucket names must not end with a dash.''
            else if CHR ''.'' \<in> set (bucketName sp) then
              message err @ ''. Bucket names must not contain dots.''
            else message err)
         else message err)),
      [Client (mountPath r) (MakeBucket (bucketName sp) [])])"
  using assms by (simp add: mkdir_def call_def)

text \<open>
  Claim C7 (amended). When \<open>makeBucket\<close> rejects the bucket name of \<open>mkdir\<close> with a message that
  matches \<open>Invalid bucket name\<close>, the error raised carries that message followed by the
  sentence of the first rule violated, in this order: at most 2 characters (at least 3
  are required); more than 63 characters; an underscore; a trailing dash; a dot. A name
  of 3 to 63 characters that violates none of the last three gets the client's message
  unchanged.
\<close>

theorem mkdir_invalid_bucket_name:
  assumes "split r filepath = Inr sp"
    and "c_makeBucket (client r) (bucketName sp) [] = Some err"
    and "js_includes ''Invalid bucket name'' (message err)"
  shows
    "(length (bucketName sp) \<le> 2 \<longrightarrow>
        fst (mkdir r filepath) =
          Inl (new_Error (message err @ ''. Bucket names must have at least 3 characters.'')))
   \<and> (length (bucketName sp) > 63 \<longrightarrow>
        fst (mkdir r filepath) =
          Inl (new_Error (message err @ ''. Bucket names must have no more than 63 characters.'')))
   \<and> (2 < length (bucketName sp) \<and> length (bucketName sp) \<le> 63 \<longrightarrow>
        (CHR ''_'' \<in> set (bucketName sp) \<longrightarrow>
           fst (mkdir r filepath) =
             Inl (new_Error (message err @ ''. Bucket names must not contain underscore.'')))
      \<and> (CHR ''_'' \<notin> set (bucketName sp) \<and> suffix ''-'' (bucketName sp) \<longrightarrow>
           fst (mkdir r filepath) =
             Inl (new_Error (message err @ ''. Bucket names must not end with a dash.'')))
      \<and> (CHR ''_'' \<notin> set (bucketName sp) \<and> \<not> suffix ''-'' (bucketName sp)
            \<and> CHR ''.'' \<in> set (bucketName sp) \<longrightarrow>
           fst (mkdir r filepath) =
             Inl (new_Error (message err @ ''. Bucket names must not contain dots.'')))
      \<and> (CHR ''_'' \<notin> set (bucketName sp) \<and> \<not> suffix ''-'' (bucketName sp)
            \<and> CHR ''.'' \<notin> set (bucketName sp) \<longrightarrow>
           fst (mkdir r filepath) = Inl (new_Error (message err))))"
  using assms(3) by (simp add: mkdir_rejected [OF assms(1,2)])

lemma split_a_underscore:
  "split (ibm strict_names_client) ''/s3/ibm/a_'' = Inr \<lparr>bucketName = ''a_'', fileName = []\<rparr>"
  by (simp add: split_def strip_s3Prefix_def ibm_def Let_def)

lemma strict_makeBucket:
  "c_makeBucket (client (ibm strict_names_client)) b [] = Some (new_Error (''Invalid bucket name: '' @ b))"
  by (simp add: ibm_def strict_names_client_def)

lemma invalid_includes: "js_includes ''Invalid bucket name'' (message (new_Error (''Invalid bucket name: '' @ b)))"
  by (simp add: new_Error_def)

lemma split_bucket_only:
  assumes "b \<noteq> []" and "CHR ''/'' \<notin> set b" and "\<forall>c \<in> set b. \<not> line_terminator c"
  shows "split (ibm c) (''/s3/ibm/'' @ b) = Inr \<lparr>bucketName = b, fileName = []\<rparr>"
proof -
  have st: "strip_s3Prefix (ibm c) (''/s3/ibm/'' @ b) = b"
    by (simp add: strip_s3Prefix_def ibm_def)
  have dw: "dropWhile (\<lambda>c. c = CHR ''/'') b = b"
    using assms(1,2) by (cases b) auto
  have tw: "takeWhile (\<lambda>c. c \<noteq> CHR ''/'') b = b" "dropWhile (\<lambda>c. c \<noteq> CHR ''/'') b = []"
    using assms(2) by auto
  show ?thesis
    unfolding split_def st dw using assms(1) by (simp add: Let_def tw)
qed

theorem mkdir_invalid_bucket_name_witness:
  "fst (mkdir (ibm strict_names_client) ''/s3/ibm/ab'') =
     Inl (new_Error ''Invalid bucket name: ab. Bucket names must have at least 3 characters.'')
   \<and> fst (mkdir (ibm strict_names_client) ''/s3/ibm/Has_Underscore'') =
     Inl (new_Error ''Invalid bucket name: Has_Underscore. Bucket names must not contain underscore.'')
   \<and> fst (mkdir (ibm strict_names_client) (''/s3/ibm/'' @ name64)) =
     Inl (new_Error (''Invalid bucket name: '' @ name64
            @ ''. Bucket names must have no more than 63 characters.''))
   \<and> fst (mkdir (ibm strict_names_client) ''/s3/ibm/logs-'') =
     Inl (new_Error ''Invalid bucket name: logs-. Bucket names must not end with a dash.'')
   \<and> fst (mkdir (ibm strict_names_client) ''/s3/ibm/my.logs'') =
     Inl (new_Error ''Invalid bucket name: my.logs. Bucket names must not contain dots.'')
   \<and> fst (mkdir (ibm strict_names_client) ''/s3/ibm/LOGS'') =
     Inl (new_Error ''Invalid bucket name: LOGS'')"
proof -
  let ?r = "ibm strict_names_client"
  have sp: "split ?r (''/s3/ibm/'' @ b) = Inr \<lparr>bucketName = b, fileName = []\<rparr>"
    if "b \<in> {''ab'', ''Has_Underscore'', name64, ''logs-'', ''my.logs'', ''LOGS''}" for b
    using that by (intro split_bucket_only) (auto simp: name64_def line_terminator_def)
  have T: "js_includes ''Invalid bucket name'' (message (new_Error (''Invalid bucket name: '' @ b)))"
      "c_makeBucket (client ?r) b [] = Some (new_Error (''Invalid bucket name: '' @ b))" for b
    by (rule invalid_includes, rule strict_makeBucket)
  note M = mkdir_invalid_bucket_name [OF sp _ T(1), simplified split_result.simps]
  have 1: "fst (mkdir ?r (''/s3/ibm/'' @ ''ab'')) =
      Inl (new_Error (message (new_Error (''Invalid bucket name: '' @ ''ab''))
        @ ''. Bucket names must have at least 3 characters.''))"
    using M [of "''ab''"] T(2) by simp
  have 2: "fst (mkdir ?r (''/s3/ibm/'' @ ''Has_Underscore'')) =
      Inl (new_Error (message (new_Error (''Invalid bucket name: '' @ ''Has_Underscore''))
        @ ''. Bucket names must not contain underscore.''))"
    using M [of "''Has_Underscore''"] T(2) by simp
  have 3: "fst (mkdir ?r (''/s3/ibm/'' @ name64)) =
      Inl (new_Error (message (new_Error (''Invalid bucket name: '' @ name64))
        @ ''. Bucket names must have no more than 63 characters.''))"
    using M [of name64] T(2) by (simp add: name64_def)
  have 4: "fst (mkdir ?r (''/s3/ibm/'' @ ''logs-'')) =
      Inl (new_Error (message (new_Error (''Invalid bucket name: '' @ ''logs-''))
        @ ''. Bucket names must not end with a dash.''))"
    using M [of "''logs-''"] T(2) by (simp add: suffix_to_prefix)
  have 5: "fst (mkdir ?r (''/s3/ibm/'' @ ''my.logs'')) =
      Inl (new_Error (message (new_Error (''Invalid bucket name: '' @ ''my.logs''))
        @ ''. Bucket names must not contain dots.''))"
    using M [of "''my.logs''"] T(2) by (simp add: suffix_to_prefix)
  have 6: "fst (mkdir ?r (''/s3/ibm/'' @ ''LOGS'')) =
      Inl (new_Error (message (new_Error (''Invalid bucket name: '' @ ''LOGS''))))"
    using M [of "''LOGS''"] T(2) by (simp add: suffix_to_prefix)
  show ?thesis using 1 2 3 4 5 6 by (simp add: new_Error_def)
qed

theorem mkdir_underscore_counterexample:
  "CHR ''_'' \<in> set ''a_''
   \<and> fst (mkdir (ibm strict_names_client) ''/s3/ibm/a_'') =
       Inl (new_Error ''Invalid bucket name: a_. Bucket names must have at least 3 characters.'')
   \<and> \<not> js_includes ''underscore''
         ''Invalid bucket name: a_. Bucket names must have at least 3 characters.''"
proof -
  have "fst (mkdir (ibm strict_names_client) ''/s3/ibm/a_'') =
       Inl (new_Error ''Invalid bucket name: a_. Bucket names must have at least 3 characters.'')"
    using mkdir_rejected [OF split_a_underscore strict_makeBucket]
    by (simp add: new_Error_def)
  moreover have "\<not> js_includes ''underscore''
         ''Invalid bucket name: a_. Bucket names must have at least 3 characters.''"
    by code_simp
  ultimately show ?thesis by simp
qed

section \<open>The responder: removal\<close>


lemma de_name_bucket_entry [simp]: "de_name (bucket_entry env r b) = b"
  by (simp add: bucket_entry_def)











section \<open>The responder: copying out of storage\<close>








section \<open>The responder: errors of the storage client\<close>

















section \<open>The responder: search\<close>

text \<open>
  Claim C9, the file names of \<open>-l\<close>. The outputs are indexed by the sources that
  \<open>vfs ls\<close> resolved, and the name reported for index \<open>idx\<close> is \<open>filepaths[idx]\<close>. Here
  \<open>*.txt\<close> resolves to \<open>a.txt\<close> and \<open>b.txt\<close>, and only \<open>b.txt\<close> has a matching line
  (index 1): with the paths \<open>*.txt\<close> and \<open>z.log\<close> the result names \<open>z.log\<close>, which has
  no match, and with the path \<open>*.txt\<close> alone the result is \<open>[undefined]\<close>. Without a
  flag the same run returns the three outputs.
\<close>

theorem grep_filenames_misaligned:
  "fst (grep logs_env (ibm quiet_client) filenames_only ''error''
          [''/s3/ibm/logs/*.txt'', ''/s3/ibm/logs/z.log'']) =
     Inr (GrepFiles [Some ''/s3/ibm/logs/z.log''])
   \<and> fst (grep logs_env (ibm quiet_client) filenames_only ''error'' [''/s3/ibm/logs/*.txt'']) =
     Inr (GrepFiles [None])
   \<and> fst (grep logs_env (ibm quiet_client) no_options ''error''
          [''/s3/ibm/logs/*.txt'', ''/s3/ibm/logs/z.log'']) =
     Inr (GrepMatches [[], ''error: disk full'', []])"
  by code_simp

lemma foldl_plus_sum_list: "foldl (\<lambda>sum count. sum + count) a xs = a + sum_list xs" for a :: nat
  by (induction xs arbitrary: a) simp_all

text \<open>
  The other two shapes of the result of \<open>grep\<close>: with \<open>-c\<close> the sum over the outputs
  of their numbers of non-empty lines; with neither \<open>-c\<close> nor \<open>-l\<close> the outputs
  themselves, or an error with the empty message when every output is empty.
\<close>

theorem grep_count_and_matches:
  assumes "rexec_ls env (vfs_ls_command env filepaths) = Inr srcs"
    and "runWithLogs env (grep_commands env pattern srcs) = Inr perFileResults"
  shows
    "(opt_c parsedOptions \<longrightarrow>
        fst (grep env r parsedOptions pattern filepaths) =
          Inr (GrepCount (sum_list (map count_matches perFileResults))))
   \<and> (\<not> opt_c parsedOptions \<and> \<not> opt_l parsedOptions \<longrightarrow>
        (list_all (\<lambda>m. m = []) perFileResults \<longrightarrow>
           fst (grep env r parsedOptions pattern filepaths) = Inl (new_Error []))
      \<and> (\<not> list_all (\<lambda>m. m = []) perFileResults \<longrightarrow>
           fst (grep env r parsedOptions pattern filepaths) = Inr (GrepMatches perFileResults)))"
  using assms
  by (simp add: grep_def call_def ret_def throw_def foldl_plus_sum_list)

theorem grep_count_and_matches_witness:
  "fst (grep logs_env (ibm quiet_client) count_only ''error''
          [''/s3/ibm/logs/*.txt'', ''/s3/ibm/logs/z.log'']) = Inr (GrepCount 1)"
proof -
  have a: "rexec_ls logs_env (vfs_ls_command logs_env [''/s3/ibm/logs/*.txt'', ''/s3/ibm/logs/z.log'']) =
      Inr [''/s3/ibm/logs/a.txt'', ''/s3/ibm/logs/b.txt'', ''/s3/ibm/logs/z.log'']"
    by code_simp
  have b: "runWithLogs logs_env (grep_commands logs_env ''error''
        [''/s3/ibm/logs/a.txt'', ''/s3/ibm/logs/b.txt'', ''/s3/ibm/logs/z.log'']) =
      Inr [[], ''error: disk full'', []]"
    by code_simp
  have c: "opt_c count_only" by (simp add: count_only_def no_options_def)
  have d: "sum_list (map count_matches [[], ''error: disk full'', []]) = 1"
    by code_simp
  show ?thesis
    using grep_count_and_matches [OF a b, of count_only "ibm quiet_client"] c d by simp
qed

end
